theory Spec2Isabelle
  imports Complex_Main
begin

section \<open>Data model of \<^verbatim>\<open>backend/app.py\<close>\<close>

text \<open>
  The server keeps three module globals (\<^verbatim>\<open>model\<close>, \<^verbatim>\<open>tokenizer\<close>,
  \<^verbatim>\<open>current_model_name\<close>) and a configuration file \<^verbatim>\<open>model_config.json\<close>.
  They are the fields of the record \<open>state\<close>. The calls into torch, transformers and
  the web socket are opaque: what each of them returns, or that it raises, is read from an
  environment record \<open>env\<close>. The lines the code writes to its logger, and the device and
  thread calls it makes, are collected in order in the field \<open>trace\<close>, so that loads and
  unloads can be counted. A text is a Python \<^verbatim>\<open>str\<close>, held as the bytes of its UTF-8
  encoding.
\<close>

datatype error = Exception string | HTTPException nat string

datatype dtype = Float32 | Float16

datatype side = LeftSide | RightSide

record model_obj =
  m_name :: string
  m_dtype :: dtype
  m_device :: string
  m_training :: bool

record tokenizer_obj =
  t_name :: string
  chat_template :: "string option"
  pad_token_id :: "nat option"
  eos_token_id :: "nat option"
  truncation_side :: side

record ChatMessage =
  role :: string
  content :: string

datatype jvalue = JNull | JBool bool | JInt int | JNum rat | JStr string
  | JArr "jvalue list" | JObj "(string \<times> jvalue) list"

record ChatRequest =
  messages :: "ChatMessage list"
  max_tokens :: "int option"
  temperature :: "rat option"
  top_p :: "rat option"
  stream :: "bool option"

record GenerationConfig =
  max_new_tokens :: jvalue
  gc_temperature :: jvalue
  gc_top_p :: jvalue
  do_sample :: bool
  gc_pad_token_id :: "nat option"
  gc_eos_token_id :: "nat option"
  use_cache :: bool
  repetition_penalty :: rat
  num_beams :: nat
  early_stopping :: bool

datatype StreamEvent = Start | Token string | End | Error string

datatype chat_response = UseWebSocket | Completion string

datatype config_response = SwitchSuccess string string | SwitchError string "string option"

datatype effect =
    LogUnloading
  | LogUnloaded
  | LogUnloadWarning string
  | LogLoading string
  | LogLoaded string
  | LogLoadFailed string string
  | LogConfigUpdated string
  | LogSwitching
  | CudaEmptyCache
  | GcCollect
  | ThreadStart
  | ThreadJoin

text \<open>
  The environment of one call of an operation. \<open>empty_cache_try\<close> is the outcome of the
  reclamation of lines 121-123 and \<open>empty_cache_except\<close> that of lines 136-138 (\<open>None\<close>
  when it returns, \<open>Some e\<close> when it raises); \<open>report\<close> is the outcome of the
  statements of lines 205-211 on the loaded model; \<open>inputs_to\<close> that of the move of the
  token tensors to the device (line 273); \<open>GenerationConfig_init\<close> that of the
  constructor of line 276 on the values it is given; \<open>delivered\<close> is the number of
  sends on the web socket that reach the caller before \<^verbatim>\<open>send_text\<close> starts to raise
  (\<open>None\<close> when the caller stays connected).
\<close>

record env =
  cuda_available :: bool
  DEVICE :: string
  tokenizer_from_pretrained :: "string \<Rightarrow> error + tokenizer_obj"
  model_from_pretrained :: "string \<Rightarrow> dtype \<Rightarrow> error + model_obj"
  model_to :: "model_obj \<Rightarrow> string \<Rightarrow> error + model_obj"
  model_cpu :: "model_obj \<Rightarrow> error option"
  apply_chat_template :: "tokenizer_obj \<Rightarrow> ChatMessage list \<Rightarrow> error + string"
  encode :: "tokenizer_obj \<Rightarrow> string \<Rightarrow> error + nat list"
  decode :: "tokenizer_obj \<Rightarrow> nat list \<Rightarrow> error + string"
  generate :: "model_obj \<Rightarrow> nat list \<Rightarrow> GenerationConfig \<Rightarrow> error + nat list"
  streamer :: "model_obj \<Rightarrow> nat list \<Rightarrow> GenerationConfig \<Rightarrow> string list \<times> error option"
  config_write :: "error option"
  empty_cache_try :: "error option"
  empty_cache_except :: "error option"
  report :: "model_obj \<Rightarrow> error option"
  inputs_to :: "nat list \<Rightarrow> error option"
  GenerationConfig_init :: "GenerationConfig \<Rightarrow> error option"
  delivered :: "nat option"

record state =
  model :: "model_obj option"
  tokenizer :: "tokenizer_obj option"
  current_model_name :: "string option"
  model_config_file :: "string option"
  trace :: "effect list"

definition initial_state :: state where
  "initial_state = \<lparr>model = None, tokenizer = None, current_model_name = None,
     model_config_file = None, trace = []\<rparr>"

definition emit :: "effect \<Rightarrow> state \<Rightarrow> state" where
  "emit e s = s\<lparr>trace := trace s @ [e]\<rparr>"

subsection \<open>Text of an exception\<close>

function show_nat :: "nat \<Rightarrow> string" where
  "show_nat n = (if n < 10 then [char_of (48 + n)]
                 else show_nat (n div 10) @ [char_of (48 + n mod 10)])"
  by pat_completeness auto
termination
  by (relation "measure id") auto

declare show_nat.simps [simp del]

fun str :: "error \<Rightarrow> string" where
  "str (Exception msg) = msg"
| "str (HTTPException code detail) = show_nat code @ '': '' @ detail"

section \<open>Lifecycle: \<^verbatim>\<open>unload_model\<close>, \<^verbatim>\<open>load_model_dynamic\<close>, \<^verbatim>\<open>load_model\<close>\<close>

text \<open>
  \<^verbatim>\<open>torch.cuda.empty_cache()\<close> followed by \<^verbatim>\<open>gc.collect()\<close>, under
  \<^verbatim>\<open>if torch.cuda.is_available()\<close>, with the outcome given for this occurrence. When
  the reclamation raises, the cache call was made and the collector was not run; on a host
  without accelerator nothing is called.
\<close>

definition reclaim :: "env \<Rightarrow> error option \<Rightarrow> state \<Rightarrow> error option \<times> state" where
  "reclaim ev outcome s =
     (if cuda_available ev
      then (case outcome of
              None \<Rightarrow> (None, emit GcCollect (emit CudaEmptyCache s))
            | Some e \<Rightarrow> (Some e, emit CudaEmptyCache s))
      else (None, s))"

definition clear_globals :: "state \<Rightarrow> state" where
  "clear_globals s = s\<lparr>model := None, tokenizer := None, current_model_name := None\<rparr>"

text \<open>
  The \<^verbatim>\<open>except\<close> block of \<^verbatim>\<open>unload_model\<close> (lines 130-138): it logs a warning,
  clears the three globals and reclaims. Nothing catches an exception of this reclamation,
  which then leaves \<^verbatim>\<open>unload_model\<close>.
\<close>

definition unload_handler :: "env \<Rightarrow> error \<Rightarrow> state \<Rightarrow> error option \<times> state" where
  "unload_handler ev e s =
     reclaim ev (empty_cache_except ev) (clear_globals (emit (LogUnloadWarning (str e)) s))"

text \<open>
  \<^verbatim>\<open>unload_model\<close> (lines 104-138). Nothing happens when \<^verbatim>\<open>model is None\<close>.
  Otherwise the \<^verbatim>\<open>try\<close> block moves the model to the CPU, reclaims, clears the three
  globals and logs success; an exception of the move or of the reclamation enters the
  \<^verbatim>\<open>except\<close> block. The result is \<open>None\<close> when the function returns and
  \<open>Some e\<close> when it raises \<open>e\<close>, with the state it leaves.
\<close>

definition unload_model :: "env \<Rightarrow> state \<Rightarrow> error option \<times> state" where
  "unload_model ev s =
     (case model s of
        None \<Rightarrow> (None, s)
      | Some m \<Rightarrow>
          let s1 = emit LogUnloading s in
          (case model_cpu ev m of
             Some e \<Rightarrow> unload_handler ev e s1
           | None \<Rightarrow>
               (case reclaim ev (empty_cache_try ev) s1 of
                  (Some e, s2) \<Rightarrow> unload_handler ev e s2
                | (None, s2) \<Rightarrow> (None, emit LogUnloaded (clear_globals s2)))))"

text \<open>The guarded unload of lines 145-146, which is outside the \<^verbatim>\<open>try\<close> block.\<close>

definition after_guard :: "env \<Rightarrow> string \<Rightarrow> state \<Rightarrow> error option \<times> state" where
  "after_guard ev model_name s =
     (if current_model_name s \<noteq> Some model_name then unload_model ev s else (None, s))"

text \<open>
  \<^verbatim>\<open>load_model_dynamic\<close> (lines 140-217). The unload is guarded by
  \<^verbatim>\<open>current_model_name != model_name\<close>; the load that follows is not guarded. An
  exception of the unload leaves the function (\<open>Inl\<close>). Each assignment to a global
  inside the \<^verbatim>\<open>try\<close> block is an update of the state at the point where the source
  makes it, so that a later raise leaves it in place, as the \<^verbatim>\<open>except\<close> block only
  logs and returns \<^verbatim>\<open>False\<close>. The calls that may raise are the two
  \<^verbatim>\<open>from_pretrained\<close> calls, the move to the device and, after the name has been
  recorded in line 203, the reporting statements of lines 205-211; switching to evaluation
  mode and setting the backend flags are total.
\<close>

definition load_model_dynamic :: "env \<Rightarrow> string \<Rightarrow> state \<Rightarrow> (error + bool) \<times> state" where
  "load_model_dynamic ev model_name s =
     (case after_guard ev model_name s of
        (Some e, s0) \<Rightarrow> (Inl e, s0)
      | (None, s0) \<Rightarrow>
          let s1 = emit (LogLoading model_name) s0
          in case tokenizer_from_pretrained ev model_name of
               Inl e \<Rightarrow> (Inr False, emit (LogLoadFailed model_name (str e)) s1)
             | Inr t \<Rightarrow>
                 let s2 = s1\<lparr>tokenizer := Some t\<rparr> in
                 (case model_from_pretrained ev model_name
                         (if DEVICE ev = ''cpu'' then Float32 else Float16) of
                    Inl e \<Rightarrow> (Inr False, emit (LogLoadFailed model_name (str e)) s2)
                  | Inr m \<Rightarrow>
                      let s3 = s2\<lparr>model := Some m\<rparr> in
                      (case model_to ev m (DEVICE ev) of
                         Inl e \<Rightarrow> (Inr False, emit (LogLoadFailed model_name (str e)) s3)
                       | Inr m' \<Rightarrow>
                           let s4 = s3\<lparr>model := Some (m'\<lparr>m_training := False\<rparr>)\<rparr>;
                               s5 = s4\<lparr>current_model_name := Some model_name\<rparr>;
                               s6 = emit (LogLoaded model_name) s5
                           in (case report ev (m'\<lparr>m_training := False\<rparr>) of
                                 Some e \<Rightarrow>
                                   (Inr False, emit (LogLoadFailed model_name (str e)) s6)
                               | None \<Rightarrow> (Inr True, s6)))))"

text \<open>
  \<^verbatim>\<open>load_model\<close> (lines 219-231), with the module constant \<^verbatim>\<open>MODEL_NAME\<close> as a
  parameter. It returns the pair of globals, or raises \<^verbatim>\<open>HTTPException(500)\<close>, or
  lets the exception of the unload pass.
\<close>

definition load_model ::
  "env \<Rightarrow> string \<Rightarrow> state \<Rightarrow> (error + model_obj option \<times> tokenizer_obj option) \<times> state" where
  "load_model ev MODEL_NAME s =
     (if model s \<noteq> None \<and> current_model_name s = Some MODEL_NAME
      then (Inr (model s, tokenizer s), s)
      else
        (case load_model_dynamic ev MODEL_NAME s of
           (Inl e, s') \<Rightarrow> (Inl e, s')
         | (Inr success, s') \<Rightarrow>
             if \<not> success
             then (Inl (HTTPException 500 (''Model loading failed: '' @ MODEL_NAME)), s')
             else (Inr (model s', tokenizer s'), s')))"

text \<open>\<^verbatim>\<open>current()\<close> of the specification is the global \<^verbatim>\<open>current_model_name\<close>.\<close>

definition current :: "state \<Rightarrow> string option" where
  "current s = current_model_name s"

text \<open>
  The globals are only written by the functions above, which keep: a recorded identity
  implies a model object, and a model object implies a tokenizer object.
\<close>

definition globals_inv :: "state \<Rightarrow> bool" where
  "globals_inv s = ((current_model_name s = None \<or> model s \<noteq> None)
                  \<and> (model s = None \<or> tokenizer s \<noteq> None))"

definition count_unloads :: "effect list \<Rightarrow> nat" where
  "count_unloads tr = length (filter (\<lambda>e. e = LogUnloading) tr)"

definition count_loads :: "effect list \<Rightarrow> nat" where
  "count_loads tr = length (filter (\<lambda>e. case e of LogLoading n \<Rightarrow> True | _ \<Rightarrow> False) tr)"

section \<open>Prompt formatter: \<^verbatim>\<open>format_messages_for_qwen\<close>\<close>

definition nl :: string where
  "nl = [CHR 0x0A]"

text \<open>\<^verbatim>\<open>sep.join(parts)\<close>\<close>

fun join :: "string \<Rightarrow> string list \<Rightarrow> string" where
  "join sep [] = []"
| "join sep [x] = x"
| "join sep (x # y # ys) = x @ sep @ join sep (y # ys)"

text \<open>
  The fallback loop (lines 249-256) over the messages, with the list \<^verbatim>\<open>formatted\<close>
  as accumulator. A message whose role matches none of the three tests appends nothing.
\<close>

fun fallback_loop :: "ChatMessage list \<Rightarrow> string list \<Rightarrow> string list" where
  "fallback_loop [] formatted = formatted"
| "fallback_loop (msg # msgs) formatted =
     (if role msg = ''system''
      then fallback_loop msgs
             (formatted @ [''<|im_start|>system'' @ nl @ content msg @ ''<|im_end|>''])
      else if role msg = ''user''
      then fallback_loop msgs
             (formatted @ [''<|im_start|>user'' @ nl @ content msg @ ''<|im_end|>''])
      else if role msg = ''assistant''
      then fallback_loop msgs
             (formatted @ [''<|im_start|>assistant'' @ nl @ content msg @ ''<|im_end|>''])
      else fallback_loop msgs formatted)"

definition format_fallback :: "ChatMessage list \<Rightarrow> string" where
  "format_fallback msgs = join nl (fallback_loop msgs [] @ [''<|im_start|>assistant'' @ nl])"

text \<open>
  The three roles the fallback tests for, and the block it writes for a message of such a
  role.
\<close>

definition known_role :: "string \<Rightarrow> bool" where
  "known_role r = (r = ''system'' \<or> r = ''user'' \<or> r = ''assistant'')"

definition block :: "ChatMessage \<Rightarrow> string" where
  "block msg = ''<|im_start|>'' @ role msg @ nl @ content msg @ ''<|im_end|>''"

text \<open>
  Lines 233-259. The template of the tokenizer is used when the global tokenizer has a
  non-empty \<^verbatim>\<open>chat_template\<close> and \<^verbatim>\<open>apply_chat_template\<close> does not raise; the bare
  \<^verbatim>\<open>except\<close> sends every other case to the fallback.
\<close>

definition format_messages_for_qwen ::
  "env \<Rightarrow> tokenizer_obj option \<Rightarrow> ChatMessage list \<Rightarrow> string" where
  "format_messages_for_qwen ev tok msgs =
     (case tok of
        None \<Rightarrow> format_fallback msgs
      | Some t \<Rightarrow>
          if (case chat_template t of None \<Rightarrow> False | Some tpl \<Rightarrow> tpl \<noteq> [])
          then (case apply_chat_template ev t msgs of
                  Inr text \<Rightarrow> text
                | Inl e \<Rightarrow> format_fallback msgs)
          else format_fallback msgs)"

section \<open>Generation bridge: \<^verbatim>\<open>generate_response\<close>\<close>

text \<open>
  \<^verbatim>\<open>tokenizer(prompt, return_tensors="pt", truncation=True, max_length=2048)\<close>: the
  encoding of the prompt, cut to at most \<open>max_length\<close> tokens on the side the tokenizer is
  configured to truncate.
\<close>

definition truncate_ids :: "side \<Rightarrow> nat \<Rightarrow> nat list \<Rightarrow> nat list" where
  "truncate_ids sd max_length ids =
     (case sd of RightSide \<Rightarrow> take max_length ids
               | LeftSide \<Rightarrow> drop (length ids - max_length) ids)"

definition tokenize :: "env \<Rightarrow> tokenizer_obj \<Rightarrow> string \<Rightarrow> error + nat list" where
  "tokenize ev t prompt =
     (case encode ev t prompt of
        Inl e \<Rightarrow> Inl e
      | Inr ids \<Rightarrow> Inr (truncate_ids (truncation_side t) 2048 ids))"

text \<open>
  The arguments of the constructor call of lines 276-289; \<^verbatim>\<open>a or b\<close> on token ids
  takes \<open>b\<close> when \<open>a\<close> is \<^verbatim>\<open>None\<close> or 0. Whether the constructor accepts them
  is \<open>GenerationConfig_init\<close> of the environment.
\<close>

definition make_generation_config ::
  "tokenizer_obj \<Rightarrow> jvalue \<Rightarrow> jvalue \<Rightarrow> jvalue \<Rightarrow> GenerationConfig" where
  "make_generation_config t mt temp tp =
     \<lparr>max_new_tokens = mt, gc_temperature = temp, gc_top_p = tp, do_sample = True,
      gc_pad_token_id = (case pad_token_id t of
                           None \<Rightarrow> eos_token_id t
                         | Some p \<Rightarrow> if p = 0 then eos_token_id t else Some p),
      gc_eos_token_id = eos_token_id t,
      use_cache = True, repetition_penalty = 1, num_beams = 1, early_stopping = False\<rparr>"

text \<open>
  \<^verbatim>\<open>generate_response\<close> (lines 261-315) is an asynchronous generator. Its run is the
  list of the chunks it yields, how it ends (\<open>None\<close> when it is exhausted, \<open>Some e\<close>
  when it raises \<open>e\<close>), the state in which it is suspended at a \<^verbatim>\<open>yield\<close>, and
  the state it leaves when it is run to its end. In streaming mode the worker thread and
  the \<^verbatim>\<open>TextIteratorStreamer\<close> are seen from the consumer's side: \<open>streamer\<close> gives
  the texts that arrive on the queue and whether the end signal arrives (\<open>None\<close>) or the
  wait of 5 seconds raises first (\<open>Some e\<close>), which is also what the consumer sees when
  the worker itself raises.
\<close>

definition generate_response_run ::
  "env \<Rightarrow> string \<Rightarrow> ChatMessage list \<Rightarrow> jvalue \<Rightarrow> jvalue \<Rightarrow> jvalue \<Rightarrow> bool \<Rightarrow> state
     \<Rightarrow> string list \<times> error option \<times> state \<times> state" where
  "generate_response_run ev MODEL_NAME msgs mt temp tp stream_flag s =
     (let (loaded, s1) = (if model s = None \<or> tokenizer s = None
                          then load_model ev MODEL_NAME s
                          else (Inr (model s, tokenizer s), s))
      in case loaded of
           Inl e \<Rightarrow> ([], Some e, s1, s1)
         | Inr globals \<Rightarrow>
             let prompt = format_messages_for_qwen ev (tokenizer s1) msgs in
             (case tokenizer s1 of
                None \<Rightarrow> ([], Some (Exception ''NoneType object is not callable''), s1, s1)
              | Some t \<Rightarrow>
                  (case tokenize ev t prompt of
                     Inl e \<Rightarrow> ([], Some e, s1, s1)
                   | Inr input_ids \<Rightarrow>
                       (case inputs_to ev input_ids of
                          Some e \<Rightarrow> ([], Some e, s1, s1)
                        | None \<Rightarrow>
                            let generation_config = make_generation_config t mt temp tp in
                            (case GenerationConfig_init ev generation_config of
                               Some e \<Rightarrow> ([], Some e, s1, s1)
                             | None \<Rightarrow>
                                 (case model s1 of
                                    None \<Rightarrow>
                                      ([], Some (Exception
                                              ''NoneType object has no attribute generate''),
                                       s1, s1)
                                  | Some m \<Rightarrow>
                                      if stream_flag
                                      then
                                        let (texts, stalled) =
                                              streamer ev m input_ids generation_config;
                                            s2 = emit ThreadStart s1;
                                            chunks = filter (\<lambda>new_text. new_text \<noteq> []) texts
                                        in (case stalled of
                                              Some e \<Rightarrow> (chunks, Some e, s2, s2)
                                            | None \<Rightarrow> (chunks, None, s2, emit ThreadJoin s2))
                                      else
                                        (case generate ev m input_ids generation_config of
                                           Inl e \<Rightarrow> ([], Some e, s1, s1)
                                         | Inr outputs \<Rightarrow>
                                             (case decode ev t
                                                     (drop (length input_ids) outputs) of
                                                Inl e \<Rightarrow> ([], Some e, s1, s1)
                                              | Inr response \<Rightarrow>
                                                  ([response], None, s1, s1)))))))))"

text \<open>The generator run to its end by a consumer that takes every chunk.\<close>

definition generate_response ::
  "env \<Rightarrow> string \<Rightarrow> ChatMessage list \<Rightarrow> jvalue \<Rightarrow> jvalue \<Rightarrow> jvalue \<Rightarrow> bool \<Rightarrow> state
     \<Rightarrow> string list \<times> error option \<times> state" where
  "generate_response ev MODEL_NAME msgs mt temp tp stream_flag s =
     (case generate_response_run ev MODEL_NAME msgs mt temp tp stream_flag s of
        (chunks, outcome, suspended, s') \<Rightarrow> (chunks, outcome, s'))"

section \<open>Single-shot endpoint: \<^verbatim>\<open>ChatRequest\<close> and \<^verbatim>\<open>chat_completion\<close>\<close>

text \<open>
  Construction of a \<^verbatim>\<open>ChatRequest\<close> (lines 72-77): every parameter field is
  \<^verbatim>\<open>Optional\<close> with a default. An argument is \<open>None\<close> when the field is absent from the
  request and \<open>Some v\<close> when it is supplied, where \<open>v\<close> may itself be \<^verbatim>\<open>None\<close>. The
  class declares types only; it has no validator and no bound on any field.
\<close>

definition ChatRequest_init ::
  "ChatMessage list \<Rightarrow> int option option \<Rightarrow> rat option option \<Rightarrow> rat option option
     \<Rightarrow> bool option option \<Rightarrow> ChatRequest" where
  "ChatRequest_init msgs mt temp tp st =
     \<lparr>messages = msgs,
      max_tokens = (case mt of None \<Rightarrow> Some 2048 | Some v \<Rightarrow> v),
      temperature = (case temp of None \<Rightarrow> Some (7 / 10) | Some v \<Rightarrow> v),
      top_p = (case tp of None \<Rightarrow> Some (9 / 10) | Some v \<Rightarrow> v),
      stream = (case st of None \<Rightarrow> Some False | Some v \<Rightarrow> v)\<rparr>"

definition jint :: "int option \<Rightarrow> jvalue" where
  "jint v = (case v of None \<Rightarrow> JNull | Some n \<Rightarrow> JInt n)"

definition jnum :: "rat option \<Rightarrow> jvalue" where
  "jnum v = (case v of None \<Rightarrow> JNull | Some x \<Rightarrow> JNum x)"

text \<open>
  The white space of \<^verbatim>\<open>str.strip()\<close> is the code points U+0009 to U+000D, U+001C to
  U+0020, U+0085, U+00A0, U+1680, U+2000 to U+200A, U+2028, U+2029, U+202F, U+205F and
  U+3000. In UTF-8 the first group is one byte each, U+0085 and U+00A0 are two bytes and
  the others three.
\<close>

definition space1 :: "char \<Rightarrow> bool" where
  "space1 a = (let n = (of_char a :: nat) in (9 \<le> n \<and> n \<le> 13) \<or> (28 \<le> n \<and> n \<le> 32))"

definition space2 :: "char \<Rightarrow> char \<Rightarrow> bool" where
  "space2 a b = ((of_char a :: nat) = 0xC2 \<and> ((of_char b :: nat) = 0x85 \<or> (of_char b :: nat) = 0xA0))"

definition space3 :: "char \<Rightarrow> char \<Rightarrow> char \<Rightarrow> bool" where
  "space3 a b c =
     (let x = (of_char a :: nat); y = (of_char b :: nat); z = (of_char c :: nat)
      in (x = 0xE1 \<and> y = 0x9A \<and> z = 0x80)
       \<or> (x = 0xE2 \<and> y = 0x80 \<and> ((0x80 \<le> z \<and> z \<le> 0x8A) \<or> z = 0xA8 \<or> z = 0xA9 \<or> z = 0xAF))
       \<or> (x = 0xE2 \<and> y = 0x81 \<and> z = 0x9F)
       \<or> (x = 0xE3 \<and> y = 0x80 \<and> z = 0x80))"

text \<open>\<^verbatim>\<open>str.lstrip()\<close>: white space is removed from the head as long as there is some.\<close>

fun lstrip :: "string \<Rightarrow> string" where
  "lstrip (a # b # c # rest) =
     (if space3 a b c then lstrip rest
      else if space2 a b then lstrip (c # rest)
      else if space1 a then lstrip (b # c # rest)
      else a # b # c # rest)"
| "lstrip [a, b] =
     (if space2 a b then [] else if space1 a then lstrip [b] else [a, b])"
| "lstrip [a] = (if space1 a then [] else [a])"
| "lstrip [] = []"

text \<open>\<^verbatim>\<open>str.rstrip()\<close> on the reversed text: the last byte comes first.\<close>

fun rstrip_rev :: "string \<Rightarrow> string" where
  "rstrip_rev (c # b # a # rest) =
     (if space3 a b c then rstrip_rev rest
      else if space2 b c then rstrip_rev (a # rest)
      else if space1 c then rstrip_rev (b # a # rest)
      else c # b # a # rest)"
| "rstrip_rev [c, b] =
     (if space2 b c then [] else if space1 c then rstrip_rev [b] else [c, b])"
| "rstrip_rev [c] = (if space1 c then [] else [c])"
| "rstrip_rev [] = []"

definition strip :: "string \<Rightarrow> string" where
  "strip text = rev (rstrip_rev (rev (lstrip text)))"

text \<open>Whether a text begins, or ends, with a white space code point.\<close>

fun starts_with_space :: "string \<Rightarrow> bool" where
  "starts_with_space (a # b # c # rest) = (space3 a b c \<or> space2 a b \<or> space1 a)"
| "starts_with_space [a, b] = (space2 a b \<or> space1 a)"
| "starts_with_space [a] = space1 a"
| "starts_with_space [] = False"

fun ends_with_space_rev :: "string \<Rightarrow> bool" where
  "ends_with_space_rev (c # b # a # rest) = (space3 a b c \<or> space2 b c \<or> space1 c)"
| "ends_with_space_rev [c, b] = (space2 b c \<or> space1 c)"
| "ends_with_space_rev [c] = space1 c"
| "ends_with_space_rev [] = False"

definition ends_with_space :: "string \<Rightarrow> bool" where
  "ends_with_space text = ends_with_space_rev (rev text)"

text \<open>
  \<^verbatim>\<open>chat_completion\<close> (lines 396-425): the chunks of the generator are concatenated and
  the sum is stripped; an exception becomes \<^verbatim>\<open>HTTPException(500)\<close>.
\<close>

definition chat_completion ::
  "env \<Rightarrow> string \<Rightarrow> ChatRequest \<Rightarrow> state \<Rightarrow> (error + chat_response) \<times> state" where
  "chat_completion ev MODEL_NAME request s =
     (if stream request = Some True then (Inr UseWebSocket, s)
      else
        let (chunks, outcome, s') =
              generate_response ev MODEL_NAME (messages request) (jint (max_tokens request))
                (jnum (temperature request)) (jnum (top_p request)) False s
        in case outcome of
             Some e \<Rightarrow> (Inl (HTTPException 500 (str e)), s')
           | None \<Rightarrow> (Inr (Completion (strip (concat chunks))), s'))"

section \<open>Streaming endpoint: \<^verbatim>\<open>websocket_endpoint\<close>\<close>






text \<open>
  The messages the handler sends in one cycle when every send succeeds (lines 446-462):
  the start message, one token message per non-empty chunk, then the end message, or the
  error message when the generator raises.
\<close>

definition cycle_events :: "string list \<Rightarrow> error option \<Rightarrow> StreamEvent list" where
  "cycle_events chunks outcome =
     Start # map Token (filter (\<lambda>chunk. chunk \<noteq> []) chunks)
       @ [case outcome of None \<Rightarrow> End | Some e \<Rightarrow> Error (str e)]"

text \<open>
  One request-response cycle, lines 446-462: the events that reach the caller, the
  exception that leaves the cycle if there is one, and the state. When \<open>delivered\<close> is
  \<open>Some n\<close> and the cycle has more than \<open>n\<close> messages to send, send number \<open>n\<close>
  (counted from 0) raises, and so does the send of the error message that the
  \<^verbatim>\<open>except\<close> block of lines 458-462 then tries, as the connection is broken; the
  exception leaves the cycle. A failing send of the start message comes before the
  generator is started; a failing send of a token leaves the generator suspended at its
  \<^verbatim>\<open>yield\<close>.
\<close>

definition stream_cycle ::
  "env \<Rightarrow> string \<Rightarrow> ChatMessage list \<Rightarrow> jvalue \<Rightarrow> jvalue \<Rightarrow> jvalue \<Rightarrow> state
     \<Rightarrow> (StreamEvent list \<times> error option) \<times> state" where
  "stream_cycle ev MODEL_NAME msgs mt temp tp s =
     (case generate_response_run ev MODEL_NAME msgs mt temp tp True s of
        (chunks, outcome, suspended, s') \<Rightarrow>
          let events = cycle_events chunks outcome in
          (case delivered ev of
             None \<Rightarrow> ((events, None), s')
           | Some n \<Rightarrow>
               if length events \<le> n then ((events, None), s')
               else ((take n events, Some (Exception ''WebSocketDisconnect'')),
                     if n = 0 then s
                     else if n < length events - 1 then suspended
                     else s')))"








section \<open>Switching the default model: \<^verbatim>\<open>update_model_config\<close>\<close>

text \<open>
  Lines 360-394, for a request object whose values are strings, given with one entry for
  each key. The name is written to
  \<^verbatim>\<open>model_config.json\<close> first and \<^verbatim>\<open>load_model_dynamic\<close> is called after it. A
  missing or empty name, a failing write, or an exception of the unload raises, and the
  handler turns any exception into \<^verbatim>\<open>HTTPException(500)\<close>.
\<close>

definition update_model_config ::
  "env \<Rightarrow> (string \<times> string) list \<Rightarrow> state \<Rightarrow> (error + config_response) \<times> state" where
  "update_model_config ev request s =
     (case map_of request ''model'' of
        None \<Rightarrow> (Inl (HTTPException 500 (str (HTTPException 400 ''Model name is required''))), s)
      | Some new_model \<Rightarrow>
          if new_model = []
          then (Inl (HTTPException 500 (str (HTTPException 400 ''Model name is required''))), s)
          else
            (case config_write ev of
               Some e \<Rightarrow> (Inl (HTTPException 500 (str e)), s)
             | None \<Rightarrow>
                 let s1 = emit (LogConfigUpdated new_model) (s\<lparr>model_config_file := Some new_model\<rparr>);
                     s2 = emit LogSwitching s1
                 in (case load_model_dynamic ev new_model s2 of
                       (Inl e, s3) \<Rightarrow> (Inl (HTTPException 500 (str e)), s3)
                     | (Inr success, s3) \<Rightarrow>
                         if success
                         then (Inr (SwitchSuccess
                                      (''Model switched to '' @ new_model @ '' successfully!'')
                                      new_model), s3)
                         else (Inr (SwitchError
                                      (''Failed to load model '' @ new_model
                                         @ ''. Please check logs.'')
                                      (current_model_name s3)), s3))))"

text \<open>The state in which \<^verbatim>\<open>update_model_config\<close> calls \<^verbatim>\<open>load_model_dynamic\<close>.\<close>

definition switch_start :: "string \<Rightarrow> state \<Rightarrow> state" where
  "switch_start new_model s =
     emit LogSwitching
       (emit (LogConfigUpdated new_model) (s\<lparr>model_config_file := Some new_model\<rparr>))"

section \<open>Concrete environments and states\<close>

text \<open>
  An environment in which every call succeeds, with a tokenizer whose tokens are the
  bytes of the text, and variants of it in which one call raises.
\<close>

definition demo_tokenizer :: "string \<Rightarrow> tokenizer_obj" where
  "demo_tokenizer n = \<lparr>t_name = n, chat_template = None, pad_token_id = None,
     eos_token_id = Some 0, truncation_side = RightSide\<rparr>"

definition demo_model :: "string \<Rightarrow> dtype \<Rightarrow> model_obj" where
  "demo_model n d = \<lparr>m_name = n, m_dtype = d, m_device = ''cpu'', m_training = False\<rparr>"

definition hello_ids :: "nat list" where
  "hello_ids = map of_char '' Hello! ''"

definition demo_env :: env where
  "demo_env = \<lparr>cuda_available = True, DEVICE = ''cuda'',
     tokenizer_from_pretrained = (\<lambda>n. Inr (demo_tokenizer n)),
     model_from_pretrained = (\<lambda>n d. Inr (demo_model n d)),
     model_to = (\<lambda>m d. Inr (m\<lparr>m_device := d\<rparr>)),
     model_cpu = (\<lambda>m. None),
     apply_chat_template = (\<lambda>t ms. Inl (Exception ''no template'')),
     encode = (\<lambda>t p. Inr (map of_char p)),
     decode = (\<lambda>t ids. Inr (map char_of ids)),
     generate = (\<lambda>m ids c. Inr (ids @ hello_ids)),
     streamer = (\<lambda>m ids c. ([''Hel'', [], ''lo''], None)),
     config_write = None,
     empty_cache_try = None,
     empty_cache_except = None,
     report = (\<lambda>m. None),
     inputs_to = (\<lambda>ids. None),
     GenerationConfig_init = (\<lambda>c. None),
     delivered = None\<rparr>"

definition oom_env :: env where
  "oom_env = demo_env\<lparr>model_from_pretrained :=
     (\<lambda>n d. Inl (Exception ''CUDA out of memory''))\<rparr>"



text \<open>The memory report of lines 208-211 raises.\<close>

definition report_fails_env :: env where
  "report_fails_env = demo_env\<lparr>report := (\<lambda>m. Some (Exception ''CUDA error''))\<rparr>"

definition stalled_env :: env where
  "stalled_env = demo_env\<lparr>streamer := (\<lambda>m ids c. ([''Hel''], Some (Exception ''Empty'')))\<rparr>"


text \<open>An engine that continues the prompt by repeating it.\<close>

definition parrot_env :: env where
  "parrot_env = demo_env\<lparr>generate := (\<lambda>m ids c. Inr (ids @ ids @ hello_ids))\<rparr>"

definition resident_A :: state where
  "resident_A = snd (load_model_dynamic demo_env ''model-A'' initial_state)"


definition hello_request :: ChatRequest where
  "hello_request =
     ChatRequest_init [\<lparr>role = ''user'', content = ''hello''\<rparr>] (Some (Some 5)) None None None"




text \<open>The formatted prompt of \<open>hello_request\<close> in the fallback format.\<close>

definition hello_prompt :: string where
  "hello_prompt =
     ''<|im_start|>user'' @ nl @ ''hello<|im_end|>'' @ nl @ ''<|im_start|>assistant'' @ nl"


section \<open>Facts about the lifecycle functions\<close>

lemma resident_A_eq:
  "resident_A = \<lparr>model = Some \<lparr>m_name = ''model-A'', m_dtype = Float16, m_device = ''cuda'', m_training = False\<rparr>,
     tokenizer = Some (demo_tokenizer ''model-A''), current_model_name = Some ''model-A'',
     model_config_file = None, trace = [LogLoading ''model-A'', LogLoaded ''model-A'']\<rparr>"
  by (simp add: resident_A_def load_model_dynamic_def after_guard_def demo_env_def
      initial_state_def unload_model_def emit_def demo_model_def)

lemma count_loads_append [simp]: "count_loads (xs @ ys) = count_loads xs + count_loads ys"
  by (simp add: count_loads_def)

lemma count_unloads_append [simp]: "count_unloads (xs @ ys) = count_unloads xs + count_unloads ys"
  by (simp add: count_unloads_def)

lemmas unload_defs = unload_model_def unload_handler_def reclaim_def clear_globals_def emit_def Let_def

lemma unload_model_model: "model (snd (unload_model ev s)) = None"
  by (auto simp: unload_defs split: option.splits prod.splits)

lemma unload_model_current:
  "globals_inv s \<Longrightarrow> current_model_name (snd (unload_model ev s)) = None"
  by (auto simp: unload_defs globals_inv_def split: option.splits prod.splits)

lemma unload_model_inv: "globals_inv s \<Longrightarrow> globals_inv (snd (unload_model ev s))"
  by (auto simp: unload_defs globals_inv_def split: option.splits prod.splits)

lemma unload_model_config_file:
  "model_config_file (snd (unload_model ev s)) = model_config_file s"
  by (auto simp: unload_defs split: option.splits prod.splits)

lemma unload_model_trace: "\<exists>tr. trace (snd (unload_model ev s)) = trace s @ tr"
  by (auto simp: unload_defs split: option.splits prod.splits)

lemma unload_model_counts:
  "count_unloads (trace (snd (unload_model ev s))) =
     count_unloads (trace s) + (if model s = None then 0 else 1)"
  "count_loads (trace (snd (unload_model ev s))) = count_loads (trace s)"
  by (auto simp: unload_defs count_unloads_def count_loads_def split: option.splits prod.splits)

lemma after_guard_inv: "globals_inv s \<Longrightarrow> globals_inv (snd (after_guard ev n s))"
  by (simp add: after_guard_def unload_model_inv)

lemma after_guard_config_file:
  "model_config_file (snd (after_guard ev n s)) = model_config_file s"
  by (simp add: after_guard_def unload_model_config_file)

lemma after_guard_trace: "\<exists>tr. trace (snd (after_guard ev n s)) = trace s @ tr"
  by (simp add: after_guard_def unload_model_trace)

lemma after_guard_counts:
  "count_unloads (trace (snd (after_guard ev n s))) =
     count_unloads (trace s)
       + (if current_model_name s \<noteq> Some n \<and> model s \<noteq> None then 1 else 0)"
  "count_loads (trace (snd (after_guard ev n s))) = count_loads (trace s)"
  by (simp_all add: after_guard_def unload_model_counts)

lemma after_guard_current:
  "globals_inv s \<Longrightarrow>
     current_model_name (snd (after_guard ev n s))
       = (if current_model_name s = Some n then Some n else None)"
  by (simp add: after_guard_def unload_model_current)

lemma after_guard_same: "current_model_name s = Some n \<Longrightarrow> after_guard ev n s = (None, s)"
  by (simp add: after_guard_def)

text \<open>The steps of the load, in terms of the state after the guarded unload.\<close>

lemma load_model_dynamic_raises:
  "fst (load_model_dynamic ev n s) = Inl e \<longleftrightarrow> fst (after_guard ev n s) = Some e"
  by (auto simp: load_model_dynamic_def Let_def split: prod.splits option.splits sum.splits)

lemma load_model_dynamic_raised_state:
  "fst (after_guard ev n s) = Some e \<Longrightarrow>
     snd (load_model_dynamic ev n s) = snd (after_guard ev n s)"
  by (auto simp: load_model_dynamic_def Let_def split: prod.splits option.splits sum.splits)

lemma load_model_dynamic_success:
  "load_model_dynamic ev n s = (Inr True, s') \<Longrightarrow>
     model s' \<noteq> None \<and> tokenizer s' \<noteq> None \<and> current_model_name s' = Some n
     \<and> fst (after_guard ev n s) = None"
  by (auto simp: load_model_dynamic_def Let_def emit_def
      split: prod.splits option.splits sum.splits)

lemma load_model_dynamic_config_file:
  "model_config_file (snd (load_model_dynamic ev n s)) = model_config_file s"
  using after_guard_config_file [of ev n s]
  by (auto simp: load_model_dynamic_def Let_def emit_def
      split: prod.splits option.splits sum.splits)

lemma load_model_dynamic_trace:
  "fst (after_guard ev n s) = None \<Longrightarrow>
     \<exists>tr. trace (snd (load_model_dynamic ev n s))
            = trace (snd (after_guard ev n s)) @ LogLoading n # tr
        \<and> count_loads tr = 0 \<and> count_unloads tr = 0"
  by (auto simp: load_model_dynamic_def Let_def emit_def count_loads_def count_unloads_def
      split: prod.splits option.splits sum.splits)

lemma load_model_dynamic_counts:
  "count_loads (trace (snd (load_model_dynamic ev n s)))
     = count_loads (trace s) + (if fst (after_guard ev n s) = None then 1 else 0)"
  "count_unloads (trace (snd (load_model_dynamic ev n s))) =
     count_unloads (trace s)
       + (if current_model_name s \<noteq> Some n \<and> model s \<noteq> None then 1 else 0)"
proof -
  have "count_loads (trace (snd (load_model_dynamic ev n s)))
     = count_loads (trace s) + (if fst (after_guard ev n s) = None then 1 else 0)
   \<and> count_unloads (trace (snd (load_model_dynamic ev n s))) =
     count_unloads (trace s)
       + (if current_model_name s \<noteq> Some n \<and> model s \<noteq> None then 1 else 0)"
  proof (cases "fst (after_guard ev n s)")
    case None
    then obtain tr where tr: "trace (snd (load_model_dynamic ev n s))
            = trace (snd (after_guard ev n s)) @ LogLoading n # tr"
      "count_loads tr = 0" "count_unloads tr = 0"
      using load_model_dynamic_trace by blast
    have l: "count_loads (LogLoading n # tr) = 1" "count_unloads (LogLoading n # tr) = 0"
      using tr(2,3) by (simp_all add: count_loads_def count_unloads_def)
    show ?thesis
      by (simp add: tr(1) l None after_guard_counts)
  next
    case (Some e)
    then have "snd (load_model_dynamic ev n s) = snd (after_guard ev n s)"
      by (rule load_model_dynamic_raised_state)
    then show ?thesis
      by (simp add: Some after_guard_counts)
  qed
  then show "count_loads (trace (snd (load_model_dynamic ev n s)))
     = count_loads (trace s) + (if fst (after_guard ev n s) = None then 1 else 0)"
    and "count_unloads (trace (snd (load_model_dynamic ev n s))) =
     count_unloads (trace s)
       + (if current_model_name s \<noteq> Some n \<and> model s \<noteq> None then 1 else 0)"
    by simp_all
qed

lemma load_model_dynamic_inv:
  "globals_inv s \<Longrightarrow> globals_inv (snd (load_model_dynamic ev n s))"
proof -
  assume "globals_inv s"
  then have "globals_inv (snd (after_guard ev n s))"
    by (rule after_guard_inv)
  then show ?thesis
    by (auto simp: load_model_dynamic_def Let_def emit_def globals_inv_def
        split: prod.splits option.splits sum.splits)
qed

text \<open>
  The invariant holds when the process starts and every operation of the server keeps it,
  so it holds in every state the server reaches.
\<close>

lemma initial_state_inv: "globals_inv initial_state"
  by (simp add: globals_inv_def initial_state_def)

lemma emit_inv: "globals_inv (emit e s) = globals_inv s"
  by (simp add: globals_inv_def emit_def)

lemma load_model_inv: "globals_inv s \<Longrightarrow> globals_inv (snd (load_model ev x s))"
  using load_model_dynamic_inv [of s ev x]
  by (auto simp: load_model_def Let_def split: prod.splits sum.splits)

lemma generate_response_run_inv:
  "globals_inv s \<Longrightarrow>
     globals_inv (fst (snd (snd (generate_response_run ev x msgs mt temp tp flag s))))
   \<and> globals_inv (snd (snd (snd (generate_response_run ev x msgs mt temp tp flag s))))"
proof -
  assume g: "globals_inv s"
  obtain loaded s1 where
    l: "(if model s = None \<or> tokenizer s = None then load_model ev x s
         else (Inr (model s, tokenizer s), s)) = (loaded, s1)"
    by (cases "if model s = None \<or> tokenizer s = None then load_model ev x s
               else (Inr (model s, tokenizer s), s)")
  have "globals_inv s1"
    using g l load_model_inv [of s ev x] by (auto split: if_splits)
  then show ?thesis
    unfolding generate_response_run_def l
    by (simp add: Let_def emit_inv split: prod.splits sum.splits option.splits)
qed

lemma generate_response_inv:
  "globals_inv s \<Longrightarrow> globals_inv (snd (snd (generate_response ev x msgs mt temp tp flag s)))"
  using generate_response_run_inv [of s ev x msgs mt temp tp flag]
  by (auto simp: generate_response_def split: prod.splits)

lemma chat_completion_inv:
  "globals_inv s \<Longrightarrow> globals_inv (snd (chat_completion ev x request s))"
  using generate_response_inv [of s ev x "messages request" "jint (max_tokens request)"
      "jnum (temperature request)" "jnum (top_p request)" False]
  by (auto simp: chat_completion_def split: prod.splits option.splits)

lemma stream_cycle_inv:
  "globals_inv s \<Longrightarrow> globals_inv (snd (stream_cycle ev x msgs mt temp tp s))"
  using generate_response_run_inv [of s ev x msgs mt temp tp True]
  by (auto simp: stream_cycle_def Let_def split: prod.splits option.splits)

lemma update_model_config_inv:
  "globals_inv s \<Longrightarrow> globals_inv (snd (update_model_config ev request s))"
proof -
  assume g: "globals_inv s"
  have "globals_inv (emit LogSwitching (emit (LogConfigUpdated b) (s\<lparr>model_config_file := Some b\<rparr>)))" for b
    using g by (simp add: globals_inv_def emit_def)
  then have "globals_inv (snd (load_model_dynamic ev b
      (emit LogSwitching (emit (LogConfigUpdated b) (s\<lparr>model_config_file := Some b\<rparr>)))))" for b
    by (rule load_model_dynamic_inv)
  then show ?thesis
    using g by (auto simp: update_model_config_def Let_def split: option.splits prod.splits sum.splits)
      (metis snd_conv)+
qed

section \<open>Verified claims\<close>




lemma load_model_dynamic_failed:
  "load_model_dynamic ev n s = (Inr False, s') \<Longrightarrow>
     current_model_name s' = current_model_name (snd (after_guard ev n s))
   \<or> (current_model_name s' = Some n
       \<and> (\<exists>m t. model s' = Some m \<and> tokenizer s' = Some t
              \<and> tokenizer_from_pretrained ev n = Inr t \<and> report ev m \<noteq> None))"
  by (auto simp: load_model_dynamic_def Let_def emit_def
      split: prod.splits option.splits sum.splits split del: if_split)

text \<open>
  C2, as amended. When \<^verbatim>\<open>load_model_dynamic\<close> does not succeed for an identity that
  is not the current one, then afterwards either no identity is current, or the failure is
  that of the reporting statements that follow the completed load, and the identity is
  current with its tokenizer and its model. When it does not succeed for the identity that
  is already current, that identity stays current.
\<close>

theorem failed_load_identity:
  "globals_inv s \<Longrightarrow> fst (load_model_dynamic ev model_id s) \<noteq> Inr True \<Longrightarrow>
     (current_model_name s \<noteq> Some model_id \<longrightarrow>
        current (snd (load_model_dynamic ev model_id s)) = None
      \<or> (current (snd (load_model_dynamic ev model_id s)) = Some model_id
          \<and> fst (load_model_dynamic ev model_id s) = Inr False
          \<and> (\<exists>m t. model (snd (load_model_dynamic ev model_id s)) = Some m
                 \<and> tokenizer (snd (load_model_dynamic ev model_id s)) = Some t
                 \<and> tokenizer_from_pretrained ev model_id = Inr t
                 \<and> report ev m \<noteq> None)))
   \<and> (current_model_name s = Some model_id \<longrightarrow>
        current (snd (load_model_dynamic ev model_id s)) = Some model_id)"
proof -
  assume g: "globals_inv s" and f: "fst (load_model_dynamic ev model_id s) \<noteq> Inr True"
  let ?r = "load_model_dynamic ev model_id s"
  note c = after_guard_current [OF g, of ev model_id]
  show ?thesis
  proof (cases "fst ?r")
    case (Inl e)
    then have a: "fst (after_guard ev model_id s) = Some e"
      by (simp add: load_model_dynamic_raises)
    then have "snd ?r = snd (after_guard ev model_id s)"
      by (rule load_model_dynamic_raised_state)
    moreover from a have "current_model_name s \<noteq> Some model_id"
      by (auto simp: after_guard_def)
    ultimately show ?thesis
      using c by (simp add: current_def)
  next
    case (Inr b)
    with f have "?r = (Inr False, snd ?r)"
      by (cases ?r) auto
    from load_model_dynamic_failed [OF this] c Inr f show ?thesis
      by (auto simp: current_def)
  qed
qed

theorem failed_load_identity_witness:
  "globals_inv resident_A
   \<and> fst (load_model_dynamic oom_env ''model-B'' resident_A) \<noteq> Inr True
   \<and> current_model_name resident_A \<noteq> Some ''model-B''
   \<and> current (snd (load_model_dynamic oom_env ''model-B'' resident_A)) = None
   \<and> fst (load_model_dynamic oom_env ''model-A'' resident_A) \<noteq> Inr True
   \<and> current_model_name resident_A = Some ''model-A''
   \<and> current (snd (load_model_dynamic oom_env ''model-A'' resident_A)) = Some ''model-A''"
proof -
  have g: "globals_inv resident_A"
    by (simp add: resident_A_eq globals_inv_def)
  have d: "current_model_name resident_A \<noteq> Some ''model-B''"
    and e: "current_model_name resident_A = Some ''model-A''"
    by (simp_all add: resident_A_eq)
  have f: "fst (load_model_dynamic oom_env ''model-B'' resident_A) \<noteq> Inr True"
    by (simp add: load_model_dynamic_def oom_env_def demo_env_def Let_def split: prod.splits option.splits)
  have f': "fst (load_model_dynamic oom_env ''model-A'' resident_A) \<noteq> Inr True"
    by (simp add: load_model_dynamic_def oom_env_def demo_env_def Let_def split: prod.splits option.splits)
  have r: "\<forall>m. report oom_env m = None"
    by (simp add: oom_env_def demo_env_def)
  from failed_load_identity [OF g f] d r
  have 1: "current (snd (load_model_dynamic oom_env ''model-B'' resident_A)) = None"
    by auto
  from failed_load_identity [OF g f'] e
  have 2: "current (snd (load_model_dynamic oom_env ''model-A'' resident_A)) = Some ''model-A''"
    by blast
  from g d e f f' 1 2 show ?thesis by blast
qed

text \<open>
  C2 as stated fails in three ways. A failed reload of the identity that is already current
  leaves that identity current; a load that fails after the tokenizer was fetched leaves
  the new tokenizer in the global without a model; and a load whose report raises returns
  \<^verbatim>\<open>False\<close> with the new identity current.
\<close>

theorem failed_load_counterexample:
  "fst (load_model_dynamic oom_env ''model-A'' resident_A) = Inr False
   \<and> current (snd (load_model_dynamic oom_env ''model-A'' resident_A)) = Some ''model-A''
   \<and> fst (load_model_dynamic oom_env ''model-A'' initial_state) = Inr False
   \<and> tokenizer (snd (load_model_dynamic oom_env ''model-A'' initial_state))
       = Some (demo_tokenizer ''model-A'')
   \<and> model (snd (load_model_dynamic oom_env ''model-A'' initial_state)) = None
   \<and> fst (load_model_dynamic report_fails_env ''model-A'' initial_state) = Inr False
   \<and> current (snd (load_model_dynamic report_fails_env ''model-A'' initial_state))
       = Some ''model-A''"
  by (simp add: load_model_dynamic_def after_guard_def oom_env_def report_fails_env_def
      demo_env_def Let_def resident_A_eq initial_state_def unload_model_def emit_def current_def)

lemma load_model_hit:
  "model s \<noteq> None \<Longrightarrow> current_model_name s = Some x \<Longrightarrow>
     load_model ev x s = (Inr (model s, tokenizer s), s)"
  by (simp add: load_model_def)

lemma load_model_success:
  "fst (load_model ev x s) = Inr r \<Longrightarrow>
     model (snd (load_model ev x s)) \<noteq> None \<and> current_model_name (snd (load_model ev x s)) = Some x"
  by (auto simp: load_model_def Let_def split: if_splits prod.splits sum.splits
      dest: load_model_dynamic_success)

lemma load_model_miss_counts:
  "\<not> (model s \<noteq> None \<and> current_model_name s = Some x) \<Longrightarrow>
   fst (load_model ev x s) = Inr r \<Longrightarrow>
     count_loads (trace (snd (load_model ev x s))) = count_loads (trace s) + 1"
proof -
  assume m: "\<not> (model s \<noteq> None \<and> current_model_name s = Some x)"
    and r: "fst (load_model ev x s) = Inr r"
  from m have e: "snd (load_model ev x s) = snd (load_model_dynamic ev x s)"
    by (auto simp: load_model_def Let_def split: prod.splits sum.splits)
  from m r have "load_model_dynamic ev x s = (Inr True, snd (load_model_dynamic ev x s))"
    by (auto simp: load_model_def Let_def split: prod.splits sum.splits if_splits)
  then have "fst (after_guard ev x s) = None"
    using load_model_dynamic_success by blast
  then show ?thesis by (simp add: e load_model_dynamic_counts)
qed

lemma load_model_demo:
  "load_model demo_env ''model-A'' initial_state = (Inr (model resident_A, tokenizer resident_A), resident_A)"
  by (simp add: load_model_def resident_A_def initial_state_def load_model_dynamic_def
      after_guard_def unload_model_def Let_def demo_env_def)

text \<open>
  C3, as amended. \<^verbatim>\<open>load_model\<close> on the identity that is already resident returns at
  once and changes nothing, so neither a load nor an unload takes place; hence two calls
  in a row, the first of which succeeds from a state where the identity is not resident,
  perform one load in all. \<^verbatim>\<open>load_model_dynamic\<close> on the identity that is already
  current performs no unload, and it does perform one load.
\<close>

theorem resident_request_is_cache_hit:
  "(model s \<noteq> None \<and> current_model_name s = Some x \<longrightarrow>
      load_model ev x s = (Inr (model s, tokenizer s), s))
   \<and> (\<not> (model s \<noteq> None \<and> current_model_name s = Some x) \<and> fst (load_model ev x s) = Inr r \<longrightarrow>
        snd (load_model ev' x (snd (load_model ev x s))) = snd (load_model ev x s)
      \<and> count_loads (trace (snd (load_model ev' x (snd (load_model ev x s)))))
          = count_loads (trace s) + 1)
   \<and> (current_model_name s = Some a \<longrightarrow>
        count_unloads (trace (snd (load_model_dynamic ev a s))) = count_unloads (trace s)
      \<and> count_loads (trace (snd (load_model_dynamic ev a s))) = count_loads (trace s) + 1)"
proof (intro conjI impI)
  assume "model s \<noteq> None \<and> current_model_name s = Some x"
  then show "load_model ev x s = (Inr (model s, tokenizer s), s)"
    by (simp add: load_model_hit)
next
  assume a: "\<not> (model s \<noteq> None \<and> current_model_name s = Some x) \<and> fst (load_model ev x s) = Inr r"
  let ?s1 = "snd (load_model ev x s)"
  from a have r: "model ?s1 \<noteq> None \<and> current_model_name ?s1 = Some x"
    using load_model_success by blast
  then show h: "snd (load_model ev' x ?s1) = ?s1"
    by (simp add: load_model_hit)
  show "count_loads (trace (snd (load_model ev' x ?s1))) = count_loads (trace s) + 1"
    using a load_model_miss_counts [of s x ev r] by (simp add: h)
next
  assume "current_model_name s = Some a"
  then show "count_unloads (trace (snd (load_model_dynamic ev a s))) = count_unloads (trace s)"
    by (simp add: load_model_dynamic_counts)
next
  assume "current_model_name s = Some a"
  then show "count_loads (trace (snd (load_model_dynamic ev a s))) = count_loads (trace s) + 1"
    by (simp add: load_model_dynamic_counts after_guard_same)
qed

theorem resident_request_is_cache_hit_witness:
  "model resident_A \<noteq> None \<and> current_model_name resident_A = Some ''model-A''
   \<and> load_model oom_env ''model-A'' resident_A = (Inr (model resident_A, tokenizer resident_A), resident_A)
   \<and> \<not> (model initial_state \<noteq> None \<and> current_model_name initial_state = Some ''model-A'')
   \<and> fst (load_model demo_env ''model-A'' initial_state) = Inr (model resident_A, tokenizer resident_A)
   \<and> count_loads (trace (snd (load_model oom_env ''model-A''
          (snd (load_model demo_env ''model-A'' initial_state))))) = count_loads (trace initial_state) + 1
   \<and> count_unloads (trace (snd (load_model_dynamic demo_env ''model-A'' resident_A)))
        = count_unloads (trace resident_A)
   \<and> count_loads (trace (snd (load_model_dynamic demo_env ''model-A'' resident_A)))
        = count_loads (trace resident_A) + 1"
proof -
  have r: "model resident_A \<noteq> None \<and> current_model_name resident_A = Some ''model-A''"
    by (simp add: resident_A_eq)
  have f: "fst (load_model demo_env ''model-A'' initial_state) = Inr (model resident_A, tokenizer resident_A)"
    by (simp add: load_model_demo)
  have c: "\<not> (model initial_state \<noteq> None \<and> current_model_name initial_state = Some ''model-A'')"
    by (simp add: initial_state_def)
  have h1: "load_model oom_env ''model-A'' resident_A
              = (Inr (model resident_A, tokenizer resident_A), resident_A)"
    using resident_request_is_cache_hit [where s = resident_A and x = "''model-A''" and ev = oom_env] r
    by blast
  have h2: "count_loads (trace (snd (load_model oom_env ''model-A''
          (snd (load_model demo_env ''model-A'' initial_state))))) = count_loads (trace initial_state) + 1"
    using resident_request_is_cache_hit [where s = initial_state and x = "''model-A''"
        and ev = demo_env and r = "(model resident_A, tokenizer resident_A)" and ev' = oom_env] c f
    by blast
  have h3: "count_unloads (trace (snd (load_model_dynamic demo_env ''model-A'' resident_A)))
        = count_unloads (trace resident_A)
   \<and> count_loads (trace (snd (load_model_dynamic demo_env ''model-A'' resident_A)))
        = count_loads (trace resident_A) + 1"
    using resident_request_is_cache_hit [where s = resident_A and a = "''model-A''" and ev = demo_env] r
    by blast
  from r c f h1 h2 h3 show ?thesis by blast
qed

text \<open>
  C3 as stated fails for \<^verbatim>\<open>load_model_dynamic\<close>: called on the resident identity it
  loads that identity once more.
\<close>

theorem reload_of_resident_counterexample:
  "current resident_A = Some ''model-A''
   \<and> count_loads (trace (snd (load_model_dynamic demo_env ''model-A'' resident_A)))
       = count_loads (trace resident_A) + 1"
  by (simp add: load_model_dynamic_def after_guard_def demo_env_def Let_def resident_A_eq
      emit_def current_def count_loads_def)

lemma update_model_config_accepted:
  "map_of request ''model'' = Some b \<Longrightarrow> b \<noteq> [] \<Longrightarrow> config_write ev = None \<Longrightarrow>
     snd (update_model_config ev request s) = snd (load_model_dynamic ev b (switch_start b s))
   \<and> (fst (load_model_dynamic ev b (switch_start b s)) = Inr True \<longleftrightarrow>
        (\<exists>msg. fst (update_model_config ev request s) = Inr (SwitchSuccess msg b)))
   \<and> (fst (load_model_dynamic ev b (switch_start b s)) = Inr False \<longleftrightarrow>
        (\<exists>msg c. fst (update_model_config ev request s) = Inr (SwitchError msg c)))"
  by (auto simp: update_model_config_def switch_start_def Let_def split: prod.splits sum.splits)

lemma switch_start_simps [simp]:
  "model (switch_start b s) = model s"
  "tokenizer (switch_start b s) = tokenizer s"
  "current_model_name (switch_start b s) = current_model_name s"
  "model_config_file (switch_start b s) = Some b"
  by (simp_all add: switch_start_def emit_def)

lemma switch_start_trace:
  "trace (switch_start b s) = trace s @ [LogConfigUpdated b, LogSwitching]"
  by (simp add: switch_start_def emit_def)

lemma switch_start_counts [simp]:
  "count_loads (trace (switch_start b s)) = count_loads (trace s)"
  "count_unloads (trace (switch_start b s)) = count_unloads (trace s)"
  by (simp_all add: switch_start_trace count_loads_def count_unloads_def)

lemma load_model_dynamic_extends:
  "\<exists>tr. trace (snd (load_model_dynamic ev n s)) = trace (snd (after_guard ev n s)) @ tr"
proof (cases "fst (after_guard ev n s)")
  case None
  then show ?thesis using load_model_dynamic_trace by blast
next
  case (Some e)
  then show ?thesis by (simp add: load_model_dynamic_raised_state)
qed

lemma switch_A_to_B:
  "update_model_config demo_env [(''model'', ''model-B'')] resident_A =
     (Inr (SwitchSuccess ''Model switched to model-B successfully!'' ''model-B''),
      \<lparr>model = Some \<lparr>m_name = ''model-B'', m_dtype = Float16, m_device = ''cuda'', m_training = False\<rparr>,
       tokenizer = Some (demo_tokenizer ''model-B''), current_model_name = Some ''model-B'',
       model_config_file = Some ''model-B'',
       trace = [LogLoading ''model-A'', LogLoaded ''model-A'', LogConfigUpdated ''model-B'',
                LogSwitching, LogUnloading, CudaEmptyCache, GcCollect, LogUnloaded,
                LogLoading ''model-B'', LogLoaded ''model-B'']\<rparr>)"
  by (simp add: update_model_config_def resident_A_eq load_model_dynamic_def after_guard_def
      demo_env_def unload_model_def emit_def demo_model_def Let_def reclaim_def
      clear_globals_def)

text \<open>
  C4, as amended. \<^verbatim>\<open>update_model_config\<close> records the new default identity first and
  switches after that: for a non-empty name and a write that succeeds, the file holds the
  new name whether or not the switch succeeds, and every effect of the switch follows the
  record of the write. When the switch from a resident \<open>a\<close> to another identity \<open>b\<close>
  succeeds, one unload and one load took place and \<open>b\<close> is current.
\<close>

theorem update_model_config_records_then_switches:
  "map_of request ''model'' = Some b \<Longrightarrow> b \<noteq> [] \<Longrightarrow> config_write ev = None \<Longrightarrow>
     model_config_file (snd (update_model_config ev request s)) = Some b
   \<and> (\<exists>tr. trace (snd (update_model_config ev request s))
             = trace s @ LogConfigUpdated b # LogSwitching # tr)
   \<and> (globals_inv s \<and> current s = Some a \<and> a \<noteq> b
        \<and> fst (update_model_config ev request s) = Inr (SwitchSuccess msg b) \<longrightarrow>
          count_unloads (trace (snd (update_model_config ev request s))) = count_unloads (trace s) + 1
        \<and> count_loads (trace (snd (update_model_config ev request s))) = count_loads (trace s) + 1
        \<and> current (snd (update_model_config ev request s)) = Some b)"
proof -
  assume h: "map_of request ''model'' = Some b" "b \<noteq> []" "config_write ev = None"
  let ?s2 = "switch_start b s"
  let ?r = "load_model_dynamic ev b ?s2"
  from update_model_config_accepted [OF h, of s]
  have e: "snd (update_model_config ev request s) = snd ?r"
    and ok: "fst ?r = Inr True
               \<longleftrightarrow> (\<exists>msg. fst (update_model_config ev request s) = Inr (SwitchSuccess msg b))"
    by blast+
  have 1: "model_config_file (snd ?r) = Some b"
    by (simp add: load_model_dynamic_config_file)
  obtain tr1 where tr1: "trace (snd (after_guard ev b ?s2)) = trace ?s2 @ tr1"
    using after_guard_trace by blast
  obtain tr2 where tr2: "trace (snd ?r) = trace (snd (after_guard ev b ?s2)) @ tr2"
    using load_model_dynamic_extends by blast
  have 2: "\<exists>tr. trace (snd ?r) = trace s @ LogConfigUpdated b # LogSwitching # tr"
    by (simp add: tr1 tr2 switch_start_trace)
  have 3: "count_unloads (trace (snd ?r)) = count_unloads (trace s) + 1
        \<and> count_loads (trace (snd ?r)) = count_loads (trace s) + 1
        \<and> current (snd ?r) = Some b"
    if a: "globals_inv s \<and> current s = Some a \<and> a \<noteq> b
        \<and> fst (update_model_config ev request s) = Inr (SwitchSuccess msg b)"
  proof -
    from a have m: "model s \<noteq> None" and c: "current_model_name s \<noteq> Some b"
      by (auto simp: globals_inv_def current_def)
    from a ok have "fst ?r = Inr True" by blast
    then have "?r = (Inr True, snd ?r)" by (cases ?r) simp
    then have "current_model_name (snd ?r) = Some b \<and> fst (after_guard ev b ?s2) = None"
      using load_model_dynamic_success by blast
    then show ?thesis
      using m c by (simp add: load_model_dynamic_counts current_def)
  qed
  show ?thesis using 1 2 3 by (simp add: e)
qed


theorem update_model_config_records_then_switches_witness:
  "map_of [(''model'', ''model-B'')] ''model'' = Some ''model-B'' \<and> ''model-B'' \<noteq> []
   \<and> config_write demo_env = None \<and> globals_inv resident_A
   \<and> current resident_A = Some ''model-A'' \<and> ''model-A'' \<noteq> ''model-B''
   \<and> fst (update_model_config demo_env [(''model'', ''model-B'')] resident_A)
        = Inr (SwitchSuccess ''Model switched to model-B successfully!'' ''model-B'')
   \<and> model_config_file (snd (update_model_config demo_env [(''model'', ''model-B'')] resident_A))
        = Some ''model-B''
   \<and> count_unloads (trace (snd (update_model_config demo_env [(''model'', ''model-B'')] resident_A)))
        = count_unloads (trace resident_A) + 1
   \<and> count_loads (trace (snd (update_model_config demo_env [(''model'', ''model-B'')] resident_A)))
        = count_loads (trace resident_A) + 1
   \<and> current (snd (update_model_config demo_env [(''model'', ''model-B'')] resident_A))
        = Some ''model-B''"
proof -
  have 1: "map_of [(''model'', ''model-B'')] ''model'' = Some ''model-B''" by simp
  have 2: "''model-B'' \<noteq> []" by simp
  have 3: "config_write demo_env = None" by (simp add: demo_env_def)
  have g: "globals_inv resident_A" by (simp add: resident_A_eq globals_inv_def)
  have c: "current resident_A = Some ''model-A''" by (simp add: resident_A_eq current_def)
  have d: "''model-A'' \<noteq> ''model-B''" by simp
  have f: "fst (update_model_config demo_env [(''model'', ''model-B'')] resident_A)
        = Inr (SwitchSuccess ''Model switched to model-B successfully!'' ''model-B'')"
    by (simp add: switch_A_to_B)
  from update_model_config_records_then_switches [OF 1 2 3, where s = resident_A
      and a = "''model-A''" and msg = "''Model switched to model-B successfully!''"] g c d f
  have "model_config_file (snd (update_model_config demo_env [(''model'', ''model-B'')] resident_A))
        = Some ''model-B''
   \<and> count_unloads (trace (snd (update_model_config demo_env [(''model'', ''model-B'')] resident_A)))
        = count_unloads (trace resident_A) + 1
   \<and> count_loads (trace (snd (update_model_config demo_env [(''model'', ''model-B'')] resident_A)))
        = count_loads (trace resident_A) + 1
   \<and> current (snd (update_model_config demo_env [(''model'', ''model-B'')] resident_A))
        = Some ''model-B''"
    by blast
  with 1 2 3 g c d f show ?thesis by blast
qed

text \<open>
  C4 as stated fails: when the load of the new model fails, the new identity has already
  been written to the configuration file.
\<close>

theorem failed_switch_is_recorded_counterexample:
  "fst (update_model_config oom_env [(''model'', ''model-B'')] resident_A)
     = Inr (SwitchError ''Failed to load model model-B. Please check logs.'' None)
   \<and> model_config_file (snd (update_model_config oom_env [(''model'', ''model-B'')] resident_A))
       = Some ''model-B''
   \<and> trace (snd (update_model_config oom_env [(''model'', ''model-B'')] resident_A))
       = [LogLoading ''model-A'', LogLoaded ''model-A'', LogConfigUpdated ''model-B'',
          LogSwitching, LogUnloading, CudaEmptyCache, GcCollect, LogUnloaded,
          LogLoading ''model-B'', LogLoadFailed ''model-B'' ''CUDA out of memory'']"
  by (simp add: update_model_config_def resident_A_eq load_model_dynamic_def after_guard_def
      demo_env_def oom_env_def unload_model_def emit_def demo_model_def Let_def reclaim_def
      clear_globals_def)

section \<open>Formatting and tokenizing\<close>

lemma fallback_loop_eq:
  "fallback_loop msgs formatted = formatted @ map block (filter (\<lambda>m. known_role (role m)) msgs)"
  by (induction msgs arbitrary: formatted) (simp_all add: known_role_def block_def)

text \<open>
  C10. In the fallback path a message whose role is none of system, user and assistant
  contributes nothing: the formatted prompt is the blocks of the messages with a known
  role, in their order, followed by the open assistant block, joined by newlines; removing
  a message of unknown role anywhere leaves the prompt unchanged. The fallback is what
  \<^verbatim>\<open>format_messages_for_qwen\<close> returns when there is no tokenizer or no template.
\<close>

theorem fallback_drops_unknown_roles:
  "format_fallback msgs
     = join nl (map block (filter (\<lambda>m. known_role (role m)) msgs) @ [''<|im_start|>assistant'' @ nl])
   \<and> (\<not> known_role (role msg) \<longrightarrow> format_fallback (xs @ msg # ys) = format_fallback (xs @ ys))
   \<and> (chat_template t = None \<longrightarrow> format_messages_for_qwen ev (Some t) msgs = format_fallback msgs)
   \<and> format_messages_for_qwen ev None msgs = format_fallback msgs"
  by (simp add: format_fallback_def fallback_loop_eq format_messages_for_qwen_def)

theorem fallback_drops_unknown_roles_witness:
  "\<not> known_role (role \<lparr>role = ''tool'', content = ''42''\<rparr>)
   \<and> chat_template (demo_tokenizer ''model-A'') = None
   \<and> format_fallback ([\<lparr>role = ''user'', content = ''hi''\<rparr>] @ \<lparr>role = ''tool'', content = ''42''\<rparr>
        # [\<lparr>role = ''assistant'', content = ''yo''\<rparr>])
      = format_fallback ([\<lparr>role = ''user'', content = ''hi''\<rparr>] @ [\<lparr>role = ''assistant'', content = ''yo''\<rparr>])
   \<and> format_messages_for_qwen demo_env (Some (demo_tokenizer ''model-A''))
        [\<lparr>role = ''user'', content = ''hi''\<rparr>, \<lparr>role = ''tool'', content = ''42''\<rparr>]
      = format_fallback [\<lparr>role = ''user'', content = ''hi''\<rparr>, \<lparr>role = ''tool'', content = ''42''\<rparr>]
   \<and> format_fallback [\<lparr>role = ''user'', content = ''hi''\<rparr>, \<lparr>role = ''tool'', content = ''42''\<rparr>]
      = ''<|im_start|>user'' @ nl @ ''hi<|im_end|>'' @ nl @ ''<|im_start|>assistant'' @ nl"
proof -
  have u: "\<not> known_role (role \<lparr>role = ''tool'', content = ''42''\<rparr>)"
    by (simp add: known_role_def)
  have c: "chat_template (demo_tokenizer ''model-A'') = None"
    by (simp add: demo_tokenizer_def)
  have k: "filter (\<lambda>m. known_role (role m))
             [\<lparr>role = ''user'', content = ''hi''\<rparr>, \<lparr>role = ''tool'', content = ''42''\<rparr>]
           = [\<lparr>role = ''user'', content = ''hi''\<rparr>]"
    by (simp add: known_role_def)
  have 1: "format_fallback ([\<lparr>role = ''user'', content = ''hi''\<rparr>] @ \<lparr>role = ''tool'', content = ''42''\<rparr>
        # [\<lparr>role = ''assistant'', content = ''yo''\<rparr>])
      = format_fallback ([\<lparr>role = ''user'', content = ''hi''\<rparr>] @ [\<lparr>role = ''assistant'', content = ''yo''\<rparr>])"
    using fallback_drops_unknown_roles [where msg = "\<lparr>role = ''tool'', content = ''42''\<rparr>"] u
    by blast
  have 2: "format_messages_for_qwen demo_env (Some (demo_tokenizer ''model-A''))
        [\<lparr>role = ''user'', content = ''hi''\<rparr>, \<lparr>role = ''tool'', content = ''42''\<rparr>]
      = format_fallback [\<lparr>role = ''user'', content = ''hi''\<rparr>, \<lparr>role = ''tool'', content = ''42''\<rparr>]"
    using fallback_drops_unknown_roles [where t = "demo_tokenizer ''model-A''"] c
    by blast
  have "format_fallback [\<lparr>role = ''user'', content = ''hi''\<rparr>, \<lparr>role = ''tool'', content = ''42''\<rparr>]
      = join nl (map block (filter (\<lambda>m. known_role (role m))
             [\<lparr>role = ''user'', content = ''hi''\<rparr>, \<lparr>role = ''tool'', content = ''42''\<rparr>])
           @ [''<|im_start|>assistant'' @ nl])"
    by (rule fallback_drops_unknown_roles [THEN conjunct1])
  then have 3: "format_fallback [\<lparr>role = ''user'', content = ''hi''\<rparr>, \<lparr>role = ''tool'', content = ''42''\<rparr>]
      = ''<|im_start|>user'' @ nl @ ''hi<|im_end|>'' @ nl @ ''<|im_start|>assistant'' @ nl"
    unfolding k by (simp add: block_def)
  from u c 1 2 3 show ?thesis by blast
qed

lemma truncate_ids_length: "length (truncate_ids sd n ids) \<le> n"
  by (cases sd) (simp_all add: truncate_ids_def)




section \<open>Generation and streaming\<close>

lemma truncate_ids_short: "length ids \<le> n \<Longrightarrow> truncate_ids sd n ids = ids"
  by (cases sd) (simp_all add: truncate_ids_def)

text \<open>What a run of the generator that ends without exception has done.\<close>

lemma generate_response_run_completed:
  assumes "generate_response_run ev M msgs mt temp tp flag s = (chunks, None, sy, s')"
  shows "\<exists>t m input_ids. tokenizer s' = Some t \<and> model s' = Some m
     \<and> tokenize ev t (format_messages_for_qwen ev (Some t) msgs) = Inr input_ids
     \<and> GenerationConfig_init ev (make_generation_config t mt temp tp) = None
     \<and> (if flag
         then streamer ev m input_ids (make_generation_config t mt temp tp)
                = (fst (streamer ev m input_ids (make_generation_config t mt temp tp)), None)
            \<and> chunks = filter (\<lambda>x. x \<noteq> [])
                (fst (streamer ev m input_ids (make_generation_config t mt temp tp)))
         else \<exists>outputs response.
                generate ev m input_ids (make_generation_config t mt temp tp) = Inr outputs
              \<and> decode ev t (drop (length input_ids) outputs) = Inr response
              \<and> chunks = [response])"
  using assms
  by (auto simp: generate_response_run_def Let_def emit_def
      split: prod.splits sum.splits option.splits if_splits)

lemma generate_response_completed:
  assumes "generate_response ev M msgs mt temp tp flag s = (chunks, None, s')"
  shows "\<exists>t m input_ids. tokenizer s' = Some t \<and> model s' = Some m
     \<and> tokenize ev t (format_messages_for_qwen ev (Some t) msgs) = Inr input_ids
     \<and> GenerationConfig_init ev (make_generation_config t mt temp tp) = None
     \<and> (if flag
         then streamer ev m input_ids (make_generation_config t mt temp tp)
                = (fst (streamer ev m input_ids (make_generation_config t mt temp tp)), None)
            \<and> chunks = filter (\<lambda>x. x \<noteq> [])
                (fst (streamer ev m input_ids (make_generation_config t mt temp tp)))
         else \<exists>outputs response.
                generate ev m input_ids (make_generation_config t mt temp tp) = Inr outputs
              \<and> decode ev t (drop (length input_ids) outputs) = Inr response
              \<and> chunks = [response])"
proof -
  obtain sy where "generate_response_run ev M msgs mt temp tp flag s = (chunks, None, sy, s')"
    using assms by (auto simp: generate_response_def split: prod.splits)
  then show ?thesis by (rule generate_response_run_completed)
qed


lemma generate_response_single_shot_chunks:
  "length (fst (generate_response ev M msgs mt temp tp False s)) \<le> 1"
  by (auto simp: generate_response_def generate_response_run_def Let_def
      split: prod.splits sum.splits option.splits if_splits)

lemma demo_stream:
  "generate_response demo_env ''model-A'' [] mt temp tp True resident_A
     = ([''Hel'', ''lo''], None, emit ThreadJoin (emit ThreadStart resident_A))"
  by (simp add: generate_response_def generate_response_run_def resident_A_eq demo_env_def
      tokenize_def Let_def)

lemma stalled_stream:
  "generate_response stalled_env ''model-A'' [] mt temp tp True resident_A
     = ([''Hel''], Some (Exception ''Empty''), emit ThreadStart resident_A)"
  by (simp add: generate_response_def generate_response_run_def resident_A_eq stalled_env_def
      demo_env_def tokenize_def Let_def)

text \<open>
  C9. The worker thread is joined when the streamer ends normally. When the wait on the
  streamer raises, the exception leaves the generator from inside the loop and the call of
  \<^verbatim>\<open>thread.join()\<close> in line 309 is not reached: the trace ends with the start of the
  thread.
\<close>

theorem worker_not_joined_when_stream_stalls:
  "generate_response stalled_env ''model-A'' [] (JInt 5) (JNum (7 / 10)) (JNum (9 / 10)) True resident_A
     = ([''Hel''], Some (Exception ''Empty''),
        resident_A\<lparr>trace := [LogLoading ''model-A'', LogLoaded ''model-A'', ThreadStart]\<rparr>)
   \<and> generate_response demo_env ''model-A'' [] (JInt 5) (JNum (7 / 10)) (JNum (9 / 10)) True resident_A
     = ([''Hel'', ''lo''], None,
        resident_A\<lparr>trace := [LogLoading ''model-A'', LogLoaded ''model-A'', ThreadStart, ThreadJoin]\<rparr>)"
  unfolding demo_stream stalled_stream by (simp add: emit_def resident_A_eq)












lemma demo_run:
  "generate_response_run demo_env ''model-A'' [] mt temp tp True resident_A
     = ([''Hel'', ''lo''], None, emit ThreadStart resident_A,
        emit ThreadJoin (emit ThreadStart resident_A))"
  by (simp add: generate_response_run_def resident_A_eq demo_env_def tokenize_def Let_def)




lemma lstrip_clean: "\<not> starts_with_space (lstrip x)"
  by (induction x rule: lstrip.induct) auto

lemma rstrip_rev_clean: "\<not> ends_with_space_rev (rstrip_rev x)"
  by (induction x rule: rstrip_rev.induct) auto

lemma rstrip_rev_suffix: "\<exists>p. x = p @ rstrip_rev x"
proof (induction x rule: rstrip_rev.induct)
  case (1 c b a rest)
  show ?case
  proof (cases "space3 a b c")
    case True
    with 1(1) obtain p where "rest = p @ rstrip_rev (c # b # a # rest)" by auto
    then show ?thesis by (metis append_Cons)
  next
    case n3: False
    show ?thesis
    proof (cases "space2 b c")
      case True
      with n3 1(2) obtain p where "a # rest = p @ rstrip_rev (c # b # a # rest)" by auto
      then show ?thesis by (metis append_Cons)
    next
      case n2: False
      show ?thesis
      proof (cases "space1 c")
        case True
        with n3 n2 1(3) obtain p where "b # a # rest = p @ rstrip_rev (c # b # a # rest)"
          by auto
        then show ?thesis by (metis append_Cons)
      next
        case False
        with n3 n2 have "rstrip_rev (c # b # a # rest) = c # b # a # rest" by simp
        then show ?thesis by simp
      qed
    qed
  qed
next
  case (2 c b)
  show ?case
  proof (cases "space2 b c")
    case True
    then show ?thesis by simp
  next
    case n2: False
    show ?thesis
    proof (cases "space1 c")
      case True
      with n2 2 obtain p where "[b] = p @ rstrip_rev [c, b]" by auto
      then show ?thesis by (metis append_Cons)
    next
      case False
      with n2 show ?thesis by simp
    qed
  qed
next
  case (3 c)
  show ?case by auto
next
  case 4
  show ?case by simp
qed

lemma starts_with_space_append: "starts_with_space p \<Longrightarrow> starts_with_space (p @ q)"
proof (cases p rule: starts_with_space.cases)
  case (1 a b c rest)
  then show "starts_with_space p \<Longrightarrow> starts_with_space (p @ q)" by simp
next
  case (2 a b)
  then show "starts_with_space p \<Longrightarrow> starts_with_space (p @ q)" by (cases q) auto
next
  case (3 a)
  then show "starts_with_space p \<Longrightarrow> starts_with_space (p @ q)"
    by (cases q rule: starts_with_space.cases) auto
next
  case 4
  then show "starts_with_space p \<Longrightarrow> starts_with_space (p @ q)" by simp
qed

lemma strip_clean:
  "\<not> starts_with_space (strip x) \<and> \<not> ends_with_space (strip x)"
proof
  obtain p where p: "rev (lstrip x) = p @ rstrip_rev (rev (lstrip x))"
    using rstrip_rev_suffix by blast
  then have "lstrip x = strip x @ rev p"
    by (metis rev_append rev_rev_ident strip_def)
  then show "\<not> starts_with_space (strip x)"
    using lstrip_clean [of x] starts_with_space_append [of "strip x" "rev p"] by auto
  show "\<not> ends_with_space (strip x)"
    by (simp add: ends_with_space_def strip_def rstrip_rev_clean)
qed

text \<open>
  C5, as amended. A request with \<^verbatim>\<open>stream\<close> not set that is answered has made the
  generator yield exactly one chunk. That chunk is the decoding of the engine's output with
  the first \<open>length input_ids\<close> tokens, those of the prompt, removed, so that for an
  output that begins with the echoed prompt only the new tokens are decoded. The generator
  yields the chunk as decoded; \<^verbatim>\<open>chat_completion\<close> returns it stripped, and the text
  returned neither begins nor ends with white space.
\<close>

theorem single_shot_returns_stripped_completion:
  "stream request \<noteq> Some True \<Longrightarrow> chat_completion ev M request s = (Inr r, s') \<Longrightarrow>
     \<exists>t m input_ids outputs response.
        tokenizer s' = Some t \<and> model s' = Some m
      \<and> tokenize ev t (format_messages_for_qwen ev (Some t) (messages request)) = Inr input_ids
      \<and> generate ev m input_ids
           (make_generation_config t (jint (max_tokens request)) (jnum (temperature request))
              (jnum (top_p request))) = Inr outputs
      \<and> decode ev t (drop (length input_ids) outputs) = Inr response
      \<and> (\<forall>new. outputs = input_ids @ new \<longrightarrow> decode ev t new = Inr response)
      \<and> fst (generate_response ev M (messages request) (jint (max_tokens request))
                (jnum (temperature request)) (jnum (top_p request)) False s) = [response]
      \<and> r = Completion (strip response)
      \<and> \<not> starts_with_space (strip response) \<and> \<not> ends_with_space (strip response)"
proof -
  assume ns: "stream request \<noteq> Some True" and c: "chat_completion ev M request s = (Inr r, s')"
  let ?g = "generate_response ev M (messages request) (jint (max_tokens request))
              (jnum (temperature request)) (jnum (top_p request)) False s"
  obtain chunks outcome s1 where g: "?g = (chunks, outcome, s1)"
    by (cases ?g) auto
  from c ns g have o: "outcome = None" and r: "r = Completion (strip (concat chunks))" and s: "s1 = s'"
    by (auto simp: chat_completion_def split: option.splits)
  from generate_response_completed [OF g [unfolded o s]]
  obtain t m input_ids outputs response where
    h: "tokenizer s' = Some t" "model s' = Some m"
      "tokenize ev t (format_messages_for_qwen ev (Some t) (messages request)) = Inr input_ids"
      "generate ev m input_ids
           (make_generation_config t (jint (max_tokens request)) (jnum (temperature request))
              (jnum (top_p request))) = Inr outputs"
      "decode ev t (drop (length input_ids) outputs) = Inr response"
      "chunks = [response]"
    by auto
  have e: "\<forall>new. outputs = input_ids @ new \<longrightarrow> decode ev t new = Inr response"
    using h(5) by auto
  have f: "fst ?g = [response]" by (simp add: g h(6))
  have r': "r = Completion (strip response)" by (simp add: r h(6))
  from h(1-5) e f r' strip_clean [of response] show ?thesis by blast
qed

lemma decode_hello_ids: "map char_of hello_ids = '' Hello! ''"
  by code_simp

lemma demo_single_shot:
  "length (format_fallback msgs) \<le> 2048 \<Longrightarrow>
     generate_response demo_env ''model-A'' msgs mt temp tp False resident_A
       = (['' Hello! ''], None, resident_A)"
  by (simp add: generate_response_def generate_response_run_def resident_A_eq
      format_messages_for_qwen_def demo_tokenizer_def tokenize_def demo_env_def
      truncate_ids_short Let_def decode_hello_ids)

lemma hello_prompt_length: "length (format_fallback (messages hello_request)) \<le> 2048"
  by (simp add: hello_request_def ChatRequest_init_def format_fallback_def nl_def)

lemma strip_hello: "strip '' Hello! '' = ''Hello!''"
  by (simp add: strip_def space1_def space2_def space3_def)

lemma hello_completion:
  "chat_completion demo_env ''model-A'' hello_request resident_A
     = (Inr (Completion ''Hello!''), resident_A)"
proof -
  have n: "stream hello_request \<noteq> Some True"
    by (simp add: hello_request_def ChatRequest_init_def)
  show ?thesis
    by (simp add: chat_completion_def n demo_single_shot [OF hello_prompt_length] strip_hello)
qed

theorem single_shot_returns_stripped_completion_witness:
  "stream hello_request \<noteq> Some True
   \<and> chat_completion demo_env ''model-A'' hello_request resident_A
       = (Inr (Completion ''Hello!''), resident_A)
   \<and> (\<exists>response. fst (generate_response demo_env ''model-A'' (messages hello_request)
          (jint (max_tokens hello_request)) (jnum (temperature hello_request))
          (jnum (top_p hello_request)) False resident_A) = [response]
        \<and> Completion ''Hello!'' = Completion (strip response)
        \<and> \<not> starts_with_space (strip response) \<and> \<not> ends_with_space (strip response))"
proof -
  have n: "stream hello_request \<noteq> Some True"
    by (simp add: hello_request_def ChatRequest_init_def)
  from single_shot_returns_stripped_completion [OF n hello_completion] n hello_completion
  show ?thesis by blast
qed

lemma hello_prompt_eq:
  "format_messages_for_qwen ev (Some (demo_tokenizer ''model-A'')) (messages hello_request)
     = hello_prompt"
  by (simp add: format_messages_for_qwen_def demo_tokenizer_def format_fallback_def
      hello_request_def ChatRequest_init_def hello_prompt_def)

lemma strip_parrot: "strip (hello_prompt @ '' Hello! '') = hello_prompt @ '' Hello!''"
  by (simp add: hello_prompt_def nl_def strip_def space1_def space2_def space3_def)

lemma parrot_single_shot:
  "generate_response parrot_env ''model-A'' (messages hello_request) mt temp tp False resident_A
     = ([hello_prompt @ '' Hello! ''], None, resident_A)"
proof -
  have l: "length hello_prompt \<le> 2048"
    by (simp add: hello_prompt_def nl_def)
  have t: "tokenize parrot_env (demo_tokenizer ''model-A'') hello_prompt
             = Inr (map of_char hello_prompt)"
    by (simp add: tokenize_def parrot_env_def demo_env_def truncate_ids_short l)
  have d: "map char_of (map of_char hello_prompt @ hello_ids) = hello_prompt @ '' Hello! ''"
    by (simp add: decode_hello_ids comp_def)
  show ?thesis
    by (simp add: generate_response_def generate_response_run_def resident_A_eq hello_prompt_eq
        t Let_def)
      (simp add: parrot_env_def demo_env_def decode_hello_ids comp_def)
qed

text \<open>
  C5 as stated fails in two ways: the fragment the generator yields is not stripped, and
  with an engine that continues the prompt by repeating it the text returned begins with
  the prompt.
\<close>

theorem bridge_fragment_counterexample:
  "fst (generate_response demo_env ''model-A'' (messages hello_request)
          (jint (max_tokens hello_request)) (jnum (temperature hello_request))
          (jnum (top_p hello_request)) False resident_A) = ['' Hello! '']
   \<and> strip '' Hello! '' = ''Hello!''
   \<and> format_messages_for_qwen parrot_env (tokenizer resident_A) (messages hello_request)
       = hello_prompt
   \<and> chat_completion parrot_env ''model-A'' hello_request resident_A
       = (Inr (Completion (hello_prompt @ '' Hello!'')), resident_A)"
proof -
  have n: "stream hello_request \<noteq> Some True"
    by (simp add: hello_request_def ChatRequest_init_def)
  have 1: "fst (generate_response demo_env ''model-A'' (messages hello_request)
          (jint (max_tokens hello_request)) (jnum (temperature hello_request))
          (jnum (top_p hello_request)) False resident_A) = ['' Hello! '']"
    by (simp add: demo_single_shot [OF hello_prompt_length])
  have 3: "format_messages_for_qwen parrot_env (tokenizer resident_A) (messages hello_request)
       = hello_prompt"
    by (simp add: resident_A_eq hello_prompt_eq)
  have 4: "chat_completion parrot_env ''model-A'' hello_request resident_A
       = (Inr (Completion (hello_prompt @ '' Hello!'')), resident_A)"
    by (simp add: chat_completion_def n parrot_single_shot strip_parrot)
  from 1 strip_hello 3 4 show ?thesis by blast
qed










end
